theory Spec2Isabelle
  imports Main "HOL-Library.AList"
begin

section \<open>JavaScript values, objects and property lookup\<close>

text \<open>
  The personalization code is plain ES6. Its data are object literals, arrays, strings,
  integral numbers, \<open>null\<close> and \<open>undefined\<close>. An object is the list of its own
  enumerable properties in insertion order. \<open>JBuiltin k\<close> stands for the member named
  \<open>k\<close> that every object literal inherits from \<open>Object.prototype\<close> (a built-in
  function, or the prototype object itself for \<open>__proto__\<close>).
\<close>

datatype jsval =
    JUndefined
  | JNull
  | JBool bool
  | JNum int
  | JStr string
  | JArr "jsval list"
  | JObj "(string \<times> jsval) list"
  | JBuiltin string

type_synonym obj = "(string \<times> jsval) list"

text \<open>
  What a call can do besides returning: throw \<open>TypeError\<close> (a method called on a
  value that lacks it), throw \<open>URIError\<close> (\<open>decodeURIComponent\<close> on a malformed
  cookie), or leave the fragment of JavaScript that is modelled (\<open>Unmodelled\<close>).
\<close>

datatype error = TypeError | URIError | Unmodelled

text \<open>The argument \<open>personaTag\<close>: a string, \<open>null\<close>, or \<open>undefined\<close> when omitted.\<close>

datatype tag = TNull | TUndefined | TStr string

fun truthy :: "jsval \<Rightarrow> bool" where
  "truthy JUndefined = False"
| "truthy JNull = False"
| "truthy (JBool b) = b"
| "truthy (JNum n) = (n \<noteq> 0)"
| "truthy (JStr s) = (s \<noteq> [])"
| "truthy (JArr xs) = True"
| "truthy (JObj ob) = True"
| "truthy (JBuiltin k) = True"

text \<open>\<open>a || b\<close>\<close>

definition orElse :: "jsval \<Rightarrow> jsval \<Rightarrow> jsval" where
  "orElse a b = (if truthy a then a else b)"

text \<open>The own property names of \<open>Object.prototype\<close> in a browser.\<close>

definition OBJECT_PROTOTYPE :: "string list" where
  "OBJECT_PROTOTYPE =
    [''constructor'', ''__defineGetter__'', ''__defineSetter__'', ''hasOwnProperty'',
     ''__lookupGetter__'', ''__lookupSetter__'', ''isPrototypeOf'',
     ''propertyIsEnumerable'', ''toString'', ''valueOf'', ''__proto__'',
     ''toLocaleString'']"

text \<open>
  \<open>ob[k]\<close> on an object literal: the own property if there is one, otherwise the
  member inherited from \<open>Object.prototype\<close>, otherwise \<open>undefined\<close>.
\<close>

definition getProp :: "obj \<Rightarrow> string \<Rightarrow> jsval" where
  "getProp ob k =
    (case map_of ob k of
       Some v \<Rightarrow> v
     | None \<Rightarrow> if k \<in> set OBJECT_PROTOTYPE then JBuiltin k else JUndefined)"

text \<open>The property key a tag is converted to when it indexes an object.\<close>

fun propertyKey :: "tag \<Rightarrow> string" where
  "propertyKey TNull = ''null''"
| "propertyKey TUndefined = ''undefined''"
| "propertyKey (TStr s) = s"

fun tagTruthy :: "tag \<Rightarrow> bool" where
  "tagTruthy TNull = False"
| "tagTruthy TUndefined = False"
| "tagTruthy (TStr s) = (s \<noteq> [])"

fun tagValue :: "tag \<Rightarrow> jsval" where
  "tagValue TNull = JNull"
| "tagValue TUndefined = JUndefined"
| "tagValue (TStr s) = JStr s"

text \<open>
  The text a value contributes to a template literal. A built-in function prints as
  its native source (the V8 rendering is used), \<open>Object.prototype\<close> as
  \<open>[object Object]\<close>. Numbers and arrays never reach a template in this code.
\<close>

definition nativeText :: "string \<Rightarrow> string" where
  "nativeText k =
    (if k = ''__proto__'' then ''[object Object]''
     else ''function '' @ (if k = ''constructor'' then ''Object'' else k)
          @ ''() { [native code] }'')"

fun toText :: "jsval \<Rightarrow> error + string" where
  "toText (JStr s) = Inr s"
| "toText (JBuiltin k) = Inr (nativeText k)"
| "toText JUndefined = Inr ''undefined''"
| "toText JNull = Inr ''null''"
| "toText (JBool b) = Inr (if b then ''true'' else ''false'')"
| "toText (JObj ob) = Inr ''[object Object]''"
| "toText (JNum n) = Inl Unmodelled"
| "toText (JArr xs) = Inl Unmodelled"

text \<open>\<open>xs[i]\<close> on an array: \<open>None\<close> is \<open>undefined\<close>.\<close>

definition at :: "'a list \<Rightarrow> int \<Rightarrow> 'a option" where
  "at xs i = (if 0 \<le> i \<and> i < int (length xs) then Some (xs ! nat i) else None)"

section \<open>Quiz logic: the persona classifier (quiz-logic.js, quiz block)\<close>

definition PERSONAS :: "string list" where
  "PERSONAS =
    [''morning-minimalist'', ''upgrader'', ''craft-barista'', ''traveller'',
     ''non-barista'', ''office-manager'']"

definition SCORING :: "int list list list" where
  "SCORING =
    [ [ [2, 0, 0, 0, 1, 0],
        [1, 1, 0, 0, 0, 0],
        [0, 0, 1, 1, 0, 0],
        [0, 0, 0, 0, 2, 0] ],
      [ [1, 0, 0, 0, 2, 0],
        [2, 1, 0, 0, 0, 0],
        [0, 1, 2, 0, 0, 0],
        [0, 0, 0, 0, 2, 1] ],
      [ [1, 1, 0, 0, 0, 0],
        [1, 0, 0, 0, 1, 0],
        [0, 0, 0, 3, 0, 0],
        [0, 0, 0, 0, 0, 3] ],
      [ [1, 0, 0, 0, 1, 0],
        [0, 1, 0, 0, 2, 0],
        [0, 2, 1, 0, 0, 0],
        [0, 0, 3, 0, 0, 0] ] ]"

text \<open>
  \<open>optionScoring.forEach((points, personaIndex) => { scores[personaIndex] += points; })\<close>.
  A write past the end of \<open>scores\<close> would store \<open>NaN\<close>, which the integer model
  does not have.
\<close>

fun addPoints :: "nat \<Rightarrow> int list \<Rightarrow> int list \<Rightarrow> error + int list" where
  "addPoints personaIndex [] scores = Inr scores"
| "addPoints personaIndex (points # rest) scores =
    (if personaIndex < length scores
     then addPoints (Suc personaIndex) rest
            (scores[personaIndex := scores ! personaIndex + points])
     else Inl Unmodelled)"

text \<open>The body of the outer \<open>answers.forEach((answerIndex, questionIndex) => ...)\<close>.\<close>

definition scoreAnswer :: "nat \<Rightarrow> int \<Rightarrow> int list \<Rightarrow> error + int list" where
  "scoreAnswer questionIndex answerIndex scores =
    (if questionIndex < length SCORING \<and> 0 \<le> answerIndex then
       (case at SCORING (int questionIndex) of
          None \<Rightarrow> Inl TypeError
        | Some questionScoring \<Rightarrow>
            (case at questionScoring (min answerIndex (int (length questionScoring) - 1)) of
               None \<Rightarrow> Inl TypeError
             | Some optionScoring \<Rightarrow> addPoints 0 optionScoring scores))
     else Inr scores)"

fun scoreAnswers :: "nat \<Rightarrow> int list \<Rightarrow> int list \<Rightarrow> error + int list" where
  "scoreAnswers questionIndex [] scores = Inr scores"
| "scoreAnswers questionIndex (answerIndex # rest) scores =
    (case scoreAnswer questionIndex answerIndex scores of
       Inl e \<Rightarrow> Inl e
     | Inr scores' \<Rightarrow> scoreAnswers (Suc questionIndex) rest scores')"

text \<open>
  \<open>scores.forEach((score, index) => { if (score > maxScore) { maxScore = score;
  winnerIndex = index; } })\<close>: the state is the pair \<open>(maxScore, winnerIndex)\<close>.
\<close>

fun findWinner :: "nat \<Rightarrow> int list \<Rightarrow> int \<times> nat \<Rightarrow> int \<times> nat" where
  "findWinner index [] (maxScore, winnerIndex) = (maxScore, winnerIndex)"
| "findWinner index (score # rest) (maxScore, winnerIndex) =
    (if score > maxScore
     then findWinner (Suc index) rest (score, index)
     else findWinner (Suc index) rest (maxScore, winnerIndex))"

text \<open>
  \<open>calculatePersona\<close>, the same in quiz-logic.js and in the quiz block. The result
  \<open>None\<close> would be \<open>undefined\<close>, from \<open>PERSONAS[winnerIndex]\<close> out of range.
\<close>

definition zeroScores :: "int list" where
  "zeroScores = [0, 0, 0, 0, 0, 0]"

definition calculatePersona :: "int list \<Rightarrow> error + string option" where
  "calculatePersona answers =
    (case scoreAnswers 0 answers zeroScores of
       Inl e \<Rightarrow> Inl e
     | Inr scores \<Rightarrow> Inr (at PERSONAS (int (snd (findWinner 0 scores (0, 0))))))"

text \<open>\<open>getResultPage\<close> of quiz-logic.js.\<close>

definition slugMap :: obj where
  "slugMap =
    [(''morning-minimalist'', JStr ''morning-minimalist''),
     (''upgrader'', JStr ''the-upgrade-path''),
     (''craft-barista'', JStr ''craft-at-home''),
     (''traveller'', JStr ''espresso-anywhere''),
     (''non-barista'', JStr ''the-non-barista''),
     (''office-manager'', JStr ''the-non-barista'')]"

definition getResultPage :: "tag \<Rightarrow> error + string" where
  "getResultPage personaTag =
    (let slug = orElse (getProp slugMap (propertyKey personaTag)) (JStr ''morning-minimalist'')
     in case toText slug of
          Inl e \<Rightarrow> Inl e
        | Inr s \<Rightarrow> Inr (''/experiences/core/'' @ s))"

text \<open>
  The property of the tie-break that the specification asserts for the answers
  \<open>[3, 3, 3, 3]\<close>: the winner's total is strictly above every other total.
\<close>

definition strictlyHighest :: "nat \<Rightarrow> int list \<Rightarrow> bool" where
  "strictlyHighest w scores = (\<forall>j < length scores. j \<noteq> w \<longrightarrow> scores ! j < scores ! w)"

text \<open>The five experience URLs the redirect is meant to range over.\<close>

definition RESULT_URLS :: "string list" where
  "RESULT_URLS =
    [''/experiences/core/morning-minimalist'', ''/experiences/core/the-upgrade-path'',
     ''/experiences/core/craft-at-home'', ''/experiences/core/espresso-anywhere'',
     ''/experiences/core/the-non-barista'']"

section \<open>The persona store: cookies written on quiz completion (quiz block)\<close>

text \<open>
  \<open>encodeURIComponent\<close> on a string given as its UTF-8 bytes: every byte outside the
  unreserved set becomes \<open>%XX\<close>.
\<close>

definition unreserved :: string where
  "unreserved =
    ''ABCDEFGHIJKLMNOPQRSTUVWXYZabcdefghijklmnopqrstuvwxyz0123456789-_.!~*'()''"

definition hexDigit :: "nat \<Rightarrow> char" where
  "hexDigit n = ''0123456789ABCDEF'' ! n"

definition percentEncode :: "char \<Rightarrow> string" where
  "percentEncode c =
    (if c \<in> set unreserved then [c]
     else [CHR ''%'', hexDigit ((of_char c :: nat) div 16), hexDigit ((of_char c :: nat) mod 16)])"

definition encodeURIComponent :: "string \<Rightarrow> string" where
  "encodeURIComponent s = concat (map percentEncode s)"

text \<open>
  One assignment to \<open>document.cookie\<close>:
  \<open>`${name}=${encodeURIComponent(value)};expires=${date.toUTCString()};path=/;SameSite=Lax`\<close>.
  The expiry is kept as milliseconds since the epoch, \<open>date.getTime()\<close> after
  \<open>date.setTime(date.getTime() + days * 24 * 60 * 60 * 1000)\<close>.
\<close>

record cookieWrite =
  cookieName :: string
  cookieValue :: string
  cookieExpires :: int
  cookiePath :: string
  cookieSameSite :: string

definition setCookie :: "int \<Rightarrow> string \<Rightarrow> string \<Rightarrow> int \<Rightarrow> cookieWrite" where
  "setCookie now name val days =
    \<lparr> cookieName = name,
      cookieValue = encodeURIComponent val,
      cookieExpires = now + days * 24 * 60 * 60 * 1000,
      cookiePath = ''/'',
      cookieSameSite = ''Lax'' \<rparr>"

text \<open>\<open>RESULT_PAGES\<close> of the quiz block.\<close>

definition RESULT_PAGES :: obj where
  "RESULT_PAGES =
    [(''morning-minimalist'', JStr ''/experiences/core/morning-minimalist''),
     (''upgrader'', JStr ''/experiences/core/the-upgrade-path''),
     (''craft-barista'', JStr ''/experiences/core/craft-at-home''),
     (''traveller'', JStr ''/experiences/core/espresso-anywhere''),
     (''non-barista'', JStr ''/experiences/core/the-non-barista''),
     (''office-manager'', JStr ''/experiences/core/the-non-barista'')]"

text \<open>
  \<open>EXPERIENCE_TAGS\<close> of the older brew-style quiz block, which writes one of these
  five slugs to the cookie \<open>arco-brew-style\<close>.
\<close>

definition EXPERIENCE_TAGS :: "string list" where
  "EXPERIENCE_TAGS =
    [''morning-minimalist'', ''the-upgrade-path'', ''craft-at-home'',
     ''espresso-anywhere'', ''the-non-barista'']"

text \<open>
  The quiz-complete branch of \<open>decorate\<close>, after the last answer: the persona is
  calculated, both cookies are set, and \<open>window.location.href\<close> is assigned. The
  state it leaves is the list of cookie assignments, in order, and the redirect.
\<close>

record completion =
  cookies :: "cookieWrite list"
  redirect :: string

text \<open>The value of \<open>PERSONAS[winnerIndex]\<close> as a tag: a string, or \<open>undefined\<close>.\<close>

fun asTag :: "string option \<Rightarrow> tag" where
  "asTag None = TUndefined"
| "asTag (Some s) = TStr s"

definition quizComplete :: "int \<Rightarrow> int list \<Rightarrow> error + completion" where
  "quizComplete now answers =
    (case calculatePersona answers of
       Inl e \<Rightarrow> Inl e
     | Inr p \<Rightarrow>
        (let persona = asTag p;
             resultUrl = orElse (getProp RESULT_PAGES (propertyKey persona))
                           (JStr ''/experiences/core/morning-minimalist'')
         in case toText resultUrl of
              Inl e \<Rightarrow> Inl e
            | Inr href \<Rightarrow>
                Inr \<lparr> cookies =
                        [setCookie now ''arco_persona'' (propertyKey persona) 90,
                         setCookie now ''arco-brew-style'' (propertyKey persona) 30],
                      redirect = href \<rparr>))"

section \<open>The assembly engine (assembly-engine.js)\<close>

definition emDash :: string where
  "emDash = [CHR 0xE2, CHR 0x80, CHR 0x94]"

definition HERO_VARIANTS :: obj where
  "HERO_VARIANTS =
    [(''default'',
      JObj
        [(''headline'', JStr ''Precision Brewing, Beautiful Design''),
         (''subtext'', JStr (''Arco crafts espresso machines and grinders for people who care about every detail '' @ emDash @ '' from bean to cup.'')),
         (''cta'', JObj
            [(''label'', JStr ''Explore Machines''),
             (''url'', JStr ''/products/espresso-machines'')]),
         (''image_alt'', JStr ''Arco espresso machine brewing a perfect shot on a sunlit kitchen counter'')]),
     (''morning-minimalist'',
      JObj
        [(''headline'', JStr ''One perfect cup. Every morning.''),
         (''subtext'', JStr ''The Arco Primo is built for people who want quality without complexity. Heat up in 90 seconds, pull a beautiful shot, and start your day.''),
         (''cta'', JObj
            [(''label'', JStr ''Meet the Primo''),
             (''url'', JStr ''/products/pdp-canonical/arco-primo'')]),
         (''image_alt'', JStr ''A calm kitchen counter at dawn with a single espresso in a white ceramic cup next to the Arco Primo'')]),
     (''upgrader'',
      JObj
        [(''headline'', JStr ''Ready for the real thing.''),
         (''subtext'', JStr ''You've outgrown your first machine. The Arco Doppio gives you dual-boiler precision without the learning cliff.''),
         (''cta'', JObj
            [(''label'', JStr ''Compare Machines''),
             (''url'', JStr ''/products/comparison/arco-primo-vs-arco-doppio'')]),
         (''image_alt'', JStr ''The Arco Doppio on a modern kitchen counter with a fresh double shot, steam wand in action'')]),
     (''craft-barista'',
      JObj
        [(''headline'', JStr ''Built for the obsessed.''),
         (''subtext'', JStr ''The Arco Studio Pro puts pressure profiling, PID temperature control, and competition-grade build quality on your counter.''),
         (''cta'', JObj
            [(''label'', JStr ''Explore Studio Pro''),
             (''url'', JStr ''/products/pdp-canonical/arco-studio-pro'')]),
         (''image_alt'', JStr ''Close-up of the Arco Studio Pro pressure gauge and portafilter with a perfectly extracted shot flowing'')]),
     (''traveller'',
      JObj
        [(''headline'', JStr ''Espresso, everywhere.''),
         (''subtext'', JStr ''The Arco Viaggio weighs 340g and pulls genuine espresso from a mountain ledge, a hotel room, or a campervan.''),
         (''cta'', JObj
            [(''label'', JStr ''Meet the Viaggio''),
             (''url'', JStr ''/products/pdp-canonical/arco-viaggio'')]),
         (''image_alt'', JStr ''The Arco Viaggio portable espresso maker on a granite rock with mountain peaks in soft focus behind'')]),
     (''non-barista'',
      JObj
        [(''headline'', JStr ''Great coffee. No barista required.''),
         (''subtext'', JStr ''The Arco Automatico grinds, tamps, and brews with one touch. Specialty-grade espresso without the learning curve.''),
         (''cta'', JObj
            [(''label'', JStr ''See the Automatico''),
             (''url'', JStr ''/products/pdp-canonical/arco-automatico'')]),
         (''image_alt'', JStr ''The Arco Automatico with a freshly brewed espresso, simple one-button interface visible'')]),
     (''office-manager'',
      JObj
        [(''headline'', JStr ''Office coffee that people actually look forward to.''),
         (''subtext'', JStr (''The Arco Ufficio is built for teams '' @ emDash @ '' high-volume, easy to maintain, and pays for itself in under six months.'')),
         (''cta'', JObj
            [(''label'', JStr ''Calculate Savings''),
             (''url'', JStr ''/tools/calculators/capsule-to-bean-cost-comparison'')]),
         (''image_alt'', JStr ''The Arco Ufficio in a bright modern office kitchen with multiple cups ready to serve'')])]"

definition PRODUCT_RECS :: obj where
  "PRODUCT_RECS =
    [(''default'',
      JArr
        [JStr ''arco-primo'',
         JStr ''arco-doppio'',
         JStr ''arco-studio'',
         JStr ''arco-macinino'',
         JStr ''arco-preciso'',
         JStr ''arco-zero'']),
     (''morning-minimalist'',
      JArr
        [JStr ''arco-nano'',
         JStr ''arco-primo'',
         JStr ''arco-macinino'',
         JStr ''arco-filtro'',
         JStr ''arco-doppio'',
         JStr ''arco-preciso'']),
     (''upgrader'',
      JArr
        [JStr ''arco-doppio'',
         JStr ''arco-studio'',
         JStr ''arco-preciso'',
         JStr ''arco-primo'',
         JStr ''arco-macinino'',
         JStr ''arco-zero'']),
     (''craft-barista'',
      JArr
        [JStr ''arco-studio-pro'',
         JStr ''arco-zero'',
         JStr ''arco-studio'',
         JStr ''arco-preciso'',
         JStr ''arco-filtro'',
         JStr ''arco-doppio'']),
     (''traveller'',
      JArr
        [JStr ''arco-viaggio'',
         JStr ''arco-nano'',
         JStr ''arco-macinino'',
         JStr ''arco-primo'',
         JStr ''arco-filtro'',
         JStr ''arco-doppio'']),
     (''non-barista'',
      JArr
        [JStr ''arco-automatico'',
         JStr ''arco-nano'',
         JStr ''arco-primo'',
         JStr ''arco-macinino'',
         JStr ''arco-doppio'',
         JStr ''arco-preciso'']),
     (''office-manager'',
      JArr
        [JStr ''arco-ufficio'',
         JStr ''arco-doppio'',
         JStr ''arco-preciso'',
         JStr ''arco-studio'',
         JStr ''arco-automatico'',
         JStr ''arco-macinino''])]"

definition BLOG_FEEDS :: obj where
  "BLOG_FEEDS =
    [(''default'',
      JArr
        [JStr ''why-your-grinder-matters-more-than-your-machine'',
         JStr ''a-visit-to-our-workshop'',
         JStr ''the-architect-who-built-a-coffee-corner'']),
     (''morning-minimalist'',
      JArr
        [JStr ''10-most-common-beginner-mistakes'',
         JStr ''how-to-dial-in-espresso-in-under-10-minutes'',
         JStr ''how-to-store-beans-properly'']),
     (''upgrader'',
      JArr
        [JStr ''why-your-grinder-matters-more-than-your-machine'',
         JStr ''pre-infusion-what-it-is-and-why-arco-uses-it'',
         JStr ''how-to-clean-a-group-head'']),
     (''craft-barista'',
      JArr
        [JStr ''why-arco-chose-brass-for-the-studio-boiler'',
         JStr ''blind-tasting-your-espresso'',
         JStr ''calibrating-a-burr-grinder'']),
     (''traveller'',
      JArr
        [JStr ''the-van-lifer-and-the-viaggio'',
         JStr ''espresso-bars-worth-visiting-in-milan'',
         JStr ''altitude-and-espresso'']),
     (''non-barista'',
      JArr
        [JStr ''10-most-common-beginner-mistakes'',
         JStr ''descaling-step-by-step'',
         JStr ''how-to-store-beans-properly'']),
     (''office-manager'',
      JArr
        [JStr ''the-startup-office-upgrade'',
         JStr ''descaling-step-by-step'',
         JStr ''coffee-certifications-explained''])]"

definition EXPERIENCE_CTAS :: obj where
  "EXPERIENCE_CTAS =
    [(''default'',
      JObj
        [(''archetype'', JStr ''Discover Your Style''),
         (''headline'', JStr ''Not sure where to start?''),
         (''body'', JStr ''Take our 30-second quiz and we'll match you with the right setup.''),
         (''cta'', JObj
            [(''label'', JStr ''Find Your Brew Style''),
             (''url'', JStr ''/experiences/core/morning-minimalist'')]),
         (''image_alt'', JStr ''A warm kitchen scene with multiple Arco machines arranged from simple to advanced'')]),
     (''morning-minimalist'',
      JObj
        [(''archetype'', JStr ''The Morning Minimalist''),
         (''headline'', JStr ''Your morning, simplified.''),
         (''body'', JStr ''Everything you need for a calm, quality-first start to the day.''),
         (''cta'', JObj
            [(''label'', JStr ''See Your Setup''),
             (''url'', JStr ''/experiences/core/morning-minimalist'')]),
         (''image_alt'', JStr ''A calm sunrise kitchen with a single espresso and the Arco Primo'')]),
     (''upgrader'',
      JObj
        [(''archetype'', JStr ''The Upgrade Path''),
         (''headline'', JStr ''Ready for the next level?''),
         (''body'', JStr ''See what a real upgrade looks like and what it means for your daily cup.''),
         (''cta'', JObj
            [(''label'', JStr ''Explore Upgrades''),
             (''url'', JStr ''/experiences/core/the-upgrade-path'')]),
         (''image_alt'', JStr ''Side by side comparison of entry-level and mid-range Arco equipment'')]),
     (''craft-barista'',
      JObj
        [(''archetype'', JStr ''Craft at Home''),
         (''headline'', JStr ''The home setup you deserve.''),
         (''body'', JStr ''Professional-grade equipment, pro-level technique guides, zero compromises.''),
         (''cta'', JObj
            [(''label'', JStr ''Build Your Station''),
             (''url'', JStr ''/experiences/core/craft-at-home'')]),
         (''image_alt'', JStr ''A dedicated coffee corner with the Arco Studio Pro, Zero grinder, and full accessories'')]),
     (''traveller'',
      JObj
        [(''archetype'', JStr ''Espresso Anywhere''),
         (''headline'', JStr ''Your coffee, wherever you go.''),
         (''body'', JStr ''Compact gear, travel guides, and the freedom to brew anywhere on earth.''),
         (''cta'', JObj
            [(''label'', JStr ''Pack Your Kit''),
             (''url'', JStr ''/experiences/core/espresso-anywhere'')]),
         (''image_alt'', JStr ''The Arco Viaggio on a wooden table overlooking a mountain landscape'')]),
     (''non-barista'',
      JObj
        [(''archetype'', JStr ''The Non-Barista''),
         (''headline'', JStr ''No skills required.''),
         (''body'', JStr ''Specialty-grade coffee with one button press. Welcome to the easy life.''),
         (''cta'', JObj
            [(''label'', JStr ''See How Easy It Is''),
             (''url'', JStr ''/experiences/core/the-non-barista'')]),
         (''image_alt'', JStr ''A person pressing a single button on the Arco Automatico with a perfect espresso appearing'')]),
     (''office-manager'',
      JObj
        [(''archetype'', JStr ''Office Solutions''),
         (''headline'', JStr ''Coffee that runs itself.''),
         (''body'', JStr ''High-volume, low-maintenance equipment that your entire team will thank you for.''),
         (''cta'', JObj
            [(''label'', JStr ''Office Setup Guide''),
             (''url'', JStr ''/bundles/persona-kits/upgrader-kit'')]),
         (''image_alt'', JStr ''The Arco Ufficio in a bright office kitchen with happy colleagues'')])]"

text \<open>The table local to \<open>getNavigationOverride\<close>.\<close>

definition overrides :: obj where
  "overrides =
    [(''morning-minimalist'',
      JObj
        [(''promote'', JArr
            [JStr ''/products/espresso-machines'',
             JStr ''/guides/fundamentals/your-first-week-with-a-machine'']),
         (''demote'', JArr
            [JStr ''/guides/advanced/flow-control-profiling'']),
         (''cta'', JObj
            [(''label'', JStr ''Your Morning Setup''),
             (''url'', JStr ''/experiences/core/morning-minimalist'')])]),
     (''upgrader'',
      JObj
        [(''promote'', JArr
            [JStr ''/products/comparison/arco-primo-vs-arco-doppio'',
             JStr ''/guides/intermediate/dialing-in-new-beans'']),
         (''demote'', JArr
            [JStr ''/guides/fundamentals/tamping-technique'']),
         (''cta'', JObj
            [(''label'', JStr ''Find Your Upgrade''),
             (''url'', JStr ''/experiences/core/the-upgrade-path'')])]),
     (''craft-barista'',
      JObj
        [(''promote'', JArr
            [JStr ''/guides/advanced/flow-control-profiling'',
             JStr ''/products/espresso-machines'']),
         (''demote'', JArr
            [JStr ''/guides/fundamentals/what-is-extraction'']),
         (''cta'', JObj
            [(''label'', JStr ''Pro Setup''),
             (''url'', JStr ''/experiences/core/craft-at-home'')])]),
     (''traveller'',
      JObj
        [(''promote'', JArr
            [JStr ''/blog/travel/espresso-bars-worth-visiting-in-milan'',
             JStr ''/products/espresso-machines'']),
         (''demote'', JArr
            [JStr ''/guides/advanced/flow-control-profiling'']),
         (''cta'', JObj
            [(''label'', JStr ''Travel Gear''),
             (''url'', JStr ''/experiences/core/espresso-anywhere'')])]),
     (''non-barista'',
      JObj
        [(''promote'', JArr
            [JStr ''/products/espresso-machines'',
             JStr ''/guides/fundamentals/your-first-week-with-a-machine'']),
         (''demote'', JArr
            [JStr ''/guides/advanced/tds-and-extraction-yield'']),
         (''cta'', JObj
            [(''label'', JStr ''Easy Setup''),
             (''url'', JStr ''/experiences/core/the-non-barista'')])]),
     (''office-manager'',
      JObj
        [(''promote'', JArr
            [JStr ''/tools/calculators/capsule-to-bean-cost-comparison'',
             JStr ''/products/espresso-machines'']),
         (''demote'', JArr
            [JStr ''/guides/advanced/flow-control-profiling'']),
         (''cta'', JObj
            [(''label'', JStr ''Office Solutions''),
             (''url'', JStr ''/bundles/persona-kits/upgrader-kit'')])])]"

definition getHeroVariant :: "tag \<Rightarrow> jsval" where
  "getHeroVariant persona =
    orElse (getProp HERO_VARIANTS (propertyKey persona)) (getProp HERO_VARIANTS ''default'')"

text \<open>
  \<open>recs.slice(0, limit)\<close>. On an array a negative \<open>limit\<close> counts from the end.
  A value without a \<open>slice\<close> method (here: a member inherited from
  \<open>Object.prototype\<close>) makes the call throw.
\<close>

definition sliceEnd :: "nat \<Rightarrow> int \<Rightarrow> nat" where
  "sliceEnd len limit =
    (if limit < 0 then nat (max (int len + limit) 0) else nat (min limit (int len)))"

fun slice0 :: "jsval \<Rightarrow> int \<Rightarrow> error + jsval" where
  "slice0 (JArr xs) limit = Inr (JArr (take (sliceEnd (length xs) limit) xs))"
| "slice0 (JStr s) limit = Inl Unmodelled"
| "slice0 v limit = Inl TypeError"

text \<open>The parameter default \<open>limit = 3\<close> applies when the argument is omitted.\<close>

fun limitOr3 :: "int option \<Rightarrow> int" where
  "limitOr3 None = 3"
| "limitOr3 (Some n) = n"

definition getProductRecommendations :: "tag \<Rightarrow> int option \<Rightarrow> error + jsval" where
  "getProductRecommendations persona limit =
    (let recs = orElse (getProp PRODUCT_RECS (propertyKey persona)) (getProp PRODUCT_RECS ''default'')
     in slice0 recs (limitOr3 limit))"

definition getBlogFeed :: "tag \<Rightarrow> int option \<Rightarrow> error + jsval" where
  "getBlogFeed persona limit =
    (let feed = orElse (getProp BLOG_FEEDS (propertyKey persona)) (getProp BLOG_FEEDS ''default'')
     in slice0 feed (limitOr3 limit))"

definition getExperienceCTA :: "tag \<Rightarrow> jsval" where
  "getExperienceCTA persona =
    orElse (getProp EXPERIENCE_CTAS (propertyKey persona)) (getProp EXPERIENCE_CTAS ''default'')"

definition getNavigationOverride :: "tag \<Rightarrow> jsval" where
  "getNavigationOverride persona =
    orElse (getProp overrides (propertyKey persona))
      (JObj [(''promote'', JArr []), (''demote'', JArr []), (''cta'', JNull)])"

text \<open>
  \<open>personaTag || getPersonaFromCookie()\<close>. The cookie is read only when the argument
  is falsy; what the read gives (\<open>null\<close>, the decoded value, or \<open>URIError\<close> from
  \<open>decodeURIComponent\<close>) is the state of the store.
\<close>

definition resolvePersona :: "tag \<Rightarrow> error + string option \<Rightarrow> error + tag" where
  "resolvePersona tagArg cookie =
    (if tagTruthy tagArg then Inr tagArg
     else case cookie of
            Inl e \<Rightarrow> Inl e
          | Inr None \<Rightarrow> Inr TNull
          | Inr (Some s) \<Rightarrow> Inr (TStr s))"

text \<open>
  \<open>baseContent.persona_overrides?.[persona]\<close>. The field is documented as a record
  from tags to partial contents; a value that is neither an object nor
  \<open>null\<close>/\<open>undefined\<close> is outside the model.
\<close>

definition overrideFor :: "obj \<Rightarrow> tag \<Rightarrow> error + jsval" where
  "overrideFor baseContent persona =
    (case getProp baseContent ''persona_overrides'' of
       JUndefined \<Rightarrow> Inr JUndefined
     | JNull \<Rightarrow> Inr JUndefined
     | JObj po \<Rightarrow> Inr (getProp po (propertyKey persona))
     | _ \<Rightarrow> Inl Unmodelled)"

text \<open>
  \<open>Object.assign(assembled, source)\<close> stores each own enumerable property of the
  source with an ordinary assignment. Assigning the name \<open>__proto__\<close> to an object
  that has no own property of that name runs the inherited setter and adds no property.
  Numbers, booleans and built-ins have no own enumerable property; the index properties
  of strings and arrays are outside the model.
\<close>

definition assignProp :: "string \<times> jsval \<Rightarrow> obj \<Rightarrow> obj" where
  "assignProp kv target =
    (if fst kv = ''__proto__'' \<and> map_of target ''__proto__'' = None then target
     else AList.update (fst kv) (snd kv) target)"

fun objectAssign :: "obj \<Rightarrow> jsval \<Rightarrow> error + obj" where
  "objectAssign target (JObj source) = Inr (fold assignProp source target)"
| "objectAssign target (JStr s) = Inl Unmodelled"
| "objectAssign target (JArr xs) = Inl Unmodelled"
| "objectAssign target v = Inr target"

text \<open>The \<open>homepage\<close> branch of \<open>composePage\<close>: five assignments, in order.\<close>

definition assembleHomepage :: "tag \<Rightarrow> obj \<Rightarrow> error + obj" where
  "assembleHomepage persona assembled =
    (let a1 = AList.update ''hero'' (getHeroVariant persona) assembled
     in case getProductRecommendations persona (Some 3) of
          Inl e \<Rightarrow> Inl e
        | Inr products \<Rightarrow>
           (let a2 = AList.update ''products'' products a1
            in case getBlogFeed persona (Some 3) of
                 Inl e \<Rightarrow> Inl e
               | Inr feed \<Rightarrow>
                  Inr (AList.update ''nav_override'' (getNavigationOverride persona)
                        (AList.update ''experience_cta'' (getExperienceCTA persona)
                          (AList.update ''blog_feed'' feed a2)))))"

text \<open>The \<open>pdp\<close> branch: the guard and the merge.\<close>

definition assemblePdp :: "tag \<Rightarrow> obj \<Rightarrow> obj \<Rightarrow> error + obj" where
  "assemblePdp persona baseContent assembled =
    (if tagTruthy persona then
       (case overrideFor baseContent persona of
          Inl e \<Rightarrow> Inl e
        | Inr ov \<Rightarrow> if truthy ov then objectAssign assembled ov else Inr assembled)
     else Inr assembled)"

text \<open>
  \<open>composePage(pageType, personaTag, baseContent)\<close>. \<open>now\<close> is
  \<open>new Date().toISOString()\<close>, \<open>cookie\<close> what \<open>getPersonaFromCookie()\<close> gives.
  The spread \<open>{ ...baseContent }\<close> copies the own enumerable properties in order.
\<close>

definition composePage ::
    "string \<Rightarrow> error + string option \<Rightarrow> string \<Rightarrow> tag \<Rightarrow> obj \<Rightarrow> error + obj" where
  "composePage now cookie pageType tagArg baseContent =
    (case resolvePersona tagArg cookie of
       Inl e \<Rightarrow> Inl e
     | Inr persona \<Rightarrow>
        (let assembled = baseContent
         in case (if pageType = ''homepage'' then assembleHomepage persona assembled
                  else Inr assembled) of
              Inl e \<Rightarrow> Inl e
            | Inr a1 \<Rightarrow>
               (case (if pageType = ''pdp'' then assemblePdp persona baseContent a1
                      else Inr a1) of
                  Inl e \<Rightarrow> Inl e
                | Inr a2 \<Rightarrow>
                    Inr (AList.update ''_assembled_at'' (JStr now)
                          (AList.update ''_persona'' (tagValue persona) a2)))))"

text \<open>A field of the assembled page, \<open>None\<close> when the call threw or the field is absent.\<close>

definition field :: "error + obj \<Rightarrow> string \<Rightarrow> jsval option" where
  "field r k = (case r of Inl e \<Rightarrow> None | Inr ob \<Rightarrow> map_of ob k)"

text \<open>
  The invariant of the winner scan over the scores seen so far: either nothing positive
  has been seen and the state is still \<open>(0, 0)\<close>, or the state holds the first
  position of the largest score seen.
\<close>

definition winnerInv :: "int list \<Rightarrow> int \<Rightarrow> nat \<Rightarrow> bool" where
  "winnerInv seen m w =
    ((m = 0 \<and> w = 0 \<and> (\<forall>j < length seen. seen ! j \<le> 0)) \<or>
     (0 < m \<and> w < length seen \<and> seen ! w = m \<and> (\<forall>j < length seen. seen ! j \<le> m) \<and>
      (\<forall>j < w. seen ! j < m)))"


section \<open>Properties of the classifier\<close>

lemma addPoints_ok:
  "i + length row \<le> length scores \<Longrightarrow>
   \<exists>s'. addPoints i row scores = Inr s' \<and> length s' = length scores \<and>
     (\<forall>j < length scores. s' ! j =
        (if i \<le> j \<and> j < i + length row then scores ! j + row ! (j - i) else scores ! j))"
proof (induction row arbitrary: i scores)
  case Nil
  then show ?case by simp
next
  case (Cons p ps)
  have "Suc i + length ps \<le> length (scores[i := scores ! i + p])"
    using Cons.prems by simp
  from Cons.IH [OF this] obtain s' where
    s': "addPoints (Suc i) ps (scores[i := scores ! i + p]) = Inr s'"
        "length s' = length scores"
        "\<forall>j < length scores. s' ! j =
           (if Suc i \<le> j \<and> j < Suc i + length ps
            then (scores[i := scores ! i + p]) ! j + ps ! (j - Suc i)
            else (scores[i := scores ! i + p]) ! j)"
    by auto
  have "i < length scores" using Cons.prems by simp
  then have "addPoints i (p # ps) scores = Inr s'" using s'(1) by simp
  moreover have "\<forall>j < length scores. s' ! j =
        (if i \<le> j \<and> j < i + length (p # ps) then scores ! j + (p # ps) ! (j - i) else scores ! j)"
  proof (intro allI impI)
    fix j assume j: "j < length scores"
    show "s' ! j = (if i \<le> j \<and> j < i + length (p # ps) then scores ! j + (p # ps) ! (j - i) else scores ! j)"
      using s'(3) j \<open>i < length scores\<close>
      by (cases "j = i") (auto simp: nth_Cons' Suc_diff_Suc)
  qed
  ultimately show ?case using s'(2) by blast
qed

lemma SCORING_rows:
  "q < 4 \<Longrightarrow> \<exists>qs. at SCORING (int q) = Some qs \<and> length qs = 4 \<and>
     (\<forall>row \<in> set qs. length row = 6 \<and> (\<forall>p \<in> set row. 0 \<le> p))"
proof -
  assume "q < 4"
  then consider "q = 0" | "q = 1" | "q = 2" | "q = 3" by linarith
  then show ?thesis
    by cases (simp_all add: at_def SCORING_def)
qed

lemma length_SCORING: "length SCORING = 4"
  by (simp add: SCORING_def)

lemma scoreAnswer_ok:
  assumes "length scores = 6"
  shows "\<exists>s'. scoreAnswer q a scores = Inr s' \<and> length s' = 6 \<and>
           (\<forall>j < 6. scores ! j \<le> s' ! j)"
proof (cases "q < 4 \<and> 0 \<le> a")
  case False
  then show ?thesis using assms by (auto simp: scoreAnswer_def length_SCORING)
next
  case True
  then obtain qs where qs: "at SCORING (int q) = Some qs" "length qs = 4"
      "\<forall>row \<in> set qs. length row = 6 \<and> (\<forall>p \<in> set row. 0 \<le> p)"
    using SCORING_rows by blast
  define k where "k = min a 3"
  have k: "0 \<le> k" "k < 4" using True by (auto simp: k_def)
  then have atk: "at qs (min a (int (length qs) - 1)) = Some (qs ! nat k)"
    using qs(2) by (simp add: at_def k_def)
  have "qs ! nat k \<in> set qs" using k qs(2) by simp
  then have row: "length (qs ! nat k) = 6" "\<forall>p \<in> set (qs ! nat k). 0 \<le> p"
    using qs(3) by auto
  have "0 + length (qs ! nat k) \<le> length scores" using row assms by simp
  from addPoints_ok [OF this] obtain s' where
    s': "addPoints 0 (qs ! nat k) scores = Inr s'" "length s' = length scores"
        "\<forall>j < length scores. s' ! j =
           (if 0 \<le> j \<and> j < 0 + length (qs ! nat k) then scores ! j + (qs ! nat k) ! (j - 0) else scores ! j)"
    by blast
  have "scoreAnswer q a scores = Inr s'"
    using True qs(1) atk s'(1) by (simp add: scoreAnswer_def length_SCORING)
  moreover have "\<forall>j < 6. scores ! j \<le> s' ! j"
  proof (intro allI impI)
    fix j :: nat assume j: "j < 6"
    then have "(qs ! nat k) ! j \<in> set (qs ! nat k)" using row(1) by simp
    then have "0 \<le> (qs ! nat k) ! j" using row(2) by blast
    then show "scores ! j \<le> s' ! j" using s'(3) j assms row(1) by simp
  qed
  ultimately show ?thesis using s'(2) assms by simp
qed

lemma scoreAnswer_clamp: "scoreAnswer q a scores = scoreAnswer q (min a 3) scores"
proof (cases "q < 4")
  case False
  then show ?thesis by (simp add: scoreAnswer_def length_SCORING)
next
  case True
  then obtain qs where qs: "at SCORING (int q) = Some qs" "length qs = 4"
    using SCORING_rows by blast
  then show ?thesis
    by (simp add: scoreAnswer_def length_SCORING)
qed

lemma scoreAnswer_beyond: "4 \<le> q \<Longrightarrow> scoreAnswer q a scores = Inr scores"
  by (simp add: scoreAnswer_def length_SCORING)

lemma scoreAnswer_unanswered: "a < 0 \<Longrightarrow> scoreAnswer q a scores = Inr scores"
  by (simp add: scoreAnswer_def)

lemma scoreAnswers_ok:
  "length scores = 6 \<Longrightarrow>
   \<exists>s'. scoreAnswers q answers scores = Inr s' \<and> length s' = 6 \<and>
        (\<forall>j < 6. scores ! j \<le> s' ! j)"
proof (induction answers arbitrary: q scores)
  case Nil
  then show ?case by simp
next
  case (Cons a as)
  from scoreAnswer_ok [OF Cons.prems, of q a] obtain s1 where
    s1: "scoreAnswer q a scores = Inr s1" "length s1 = 6" "\<forall>j < 6. scores ! j \<le> s1 ! j"
    by blast
  from Cons.IH [OF s1(2), of "Suc q"] obtain s2 where
    s2: "scoreAnswers (Suc q) as s1 = Inr s2" "length s2 = 6" "\<forall>j < 6. s1 ! j \<le> s2 ! j"
    by blast
  have "scoreAnswers q (a # as) scores = Inr s2" using s1(1) s2(1) by simp
  moreover have "\<forall>j < 6. scores ! j \<le> s2 ! j" using s1(3) s2(3) by force
  ultimately show ?case using s2(2) by blast
qed

lemma scoreAnswers_beyond: "4 \<le> q \<Longrightarrow> scoreAnswers q answers scores = Inr scores"
proof (induction answers arbitrary: q)
  case Nil
  then show ?case by simp
next
  case (Cons a as)
  have "scoreAnswer q a scores = Inr scores" using Cons.prems by (rule scoreAnswer_beyond)
  moreover have "scoreAnswers (Suc q) as scores = Inr scores" using Cons.prems by (intro Cons.IH) simp
  ultimately show ?case by simp
qed

lemma scoreAnswers_unanswered:
  "\<forall>a \<in> set answers. a < 0 \<Longrightarrow> scoreAnswers q answers scores = Inr scores"
proof (induction answers arbitrary: q)
  case Nil
  then show ?case by simp
next
  case (Cons a as)
  have "scoreAnswer q a scores = Inr scores" using Cons.prems by (simp add: scoreAnswer_unanswered)
  moreover have "scoreAnswers (Suc q) as scores = Inr scores" using Cons.prems by (intro Cons.IH) simp
  ultimately show ?case by simp
qed

lemma scoreAnswers_clamp:
  "scoreAnswers q answers scores = scoreAnswers q (map (\<lambda>a. min a 3) (take (4 - q) answers)) scores"
proof (induction answers arbitrary: q scores)
  case Nil
  then show ?case by simp
next
  case (Cons a as)
  show ?case
  proof (cases "4 \<le> q")
    case True
    then show ?thesis by (simp only: scoreAnswers_beyond [OF True])
  next
    case False
    then obtain m where m: "4 - q = Suc m" "4 - Suc q = m"
      by (metis Suc_diff_Suc not_le)
    have IH': "\<And>s'. scoreAnswers (Suc q) (map (\<lambda>a. min a 3) (take m as)) s' = scoreAnswers (Suc q) as s'"
      using Cons.IH [of "Suc q"] m(2) by simp
    have "scoreAnswers q (map (\<lambda>a. min a 3) (take (4 - q) (a # as))) scores
        = (case scoreAnswer q (min a 3) scores of Inl e \<Rightarrow> Inl e
           | Inr s' \<Rightarrow> scoreAnswers (Suc q) (map (\<lambda>a. min a 3) (take m as)) s')"
      using m(1) by simp
    also have "\<dots> = (case scoreAnswer q a scores of Inl e \<Rightarrow> Inl e
           | Inr s' \<Rightarrow> scoreAnswers (Suc q) as s')"
      by (simp add: IH' scoreAnswer_clamp [of q a scores, symmetric] split: sum.splits)
    finally show ?thesis by simp
  qed
qed

lemma findWinner_inv:
  "winnerInv seen m w \<Longrightarrow> findWinner (length seen) rest (m, w) = (m', w') \<Longrightarrow>
   winnerInv (seen @ rest) m' w'"
proof (induction rest arbitrary: seen m w)
  case Nil
  then show ?case by simp
next
  case (Cons s ss)
  show ?case
  proof (cases "s > m")
    case True
    have "winnerInv (seen @ [s]) s (length seen)"
      using Cons.prems(1) True
      by (auto simp: winnerInv_def nth_append less_Suc_eq)
    moreover have "findWinner (length (seen @ [s])) ss (s, length seen) = (m', w')"
      using Cons.prems(2) True by simp
    ultimately have "winnerInv ((seen @ [s]) @ ss) m' w'" by (rule Cons.IH)
    then show ?thesis by simp
  next
    case False
    have "winnerInv (seen @ [s]) m w"
      using Cons.prems(1) False
      by (auto simp: winnerInv_def nth_append less_Suc_eq)
    moreover have "findWinner (length (seen @ [s])) ss (m, w) = (m', w')"
      using Cons.prems(2) False by simp
    ultimately have "winnerInv ((seen @ [s]) @ ss) m' w'" by (rule Cons.IH)
    then show ?thesis by simp
  qed
qed

lemma findWinner_first_max:
  assumes "scores \<noteq> []" "\<forall>x \<in> set scores. 0 \<le> x"
  shows "\<exists>w < length scores. findWinner 0 scores (0, 0) = (scores ! w, w) \<and>
           (\<forall>j < length scores. scores ! j \<le> scores ! w) \<and> (\<forall>j < w. scores ! j < scores ! w)"
proof -
  obtain m w where mw: "findWinner 0 scores (0, 0) = (m, w)" by (cases "findWinner 0 scores (0, 0)")
  have "winnerInv [] 0 0" by (simp add: winnerInv_def)
  from findWinner_inv [OF this, of scores m w] mw have inv: "winnerInv scores m w" by simp
  show ?thesis
  proof (cases "0 < m")
    case True
    then show ?thesis using inv mw by (auto simp: winnerInv_def)
  next
    case False
    then have z: "m = 0" "w = 0" "\<forall>j < length scores. scores ! j \<le> 0" using inv by (auto simp: winnerInv_def)
    have "\<forall>j < length scores. 0 \<le> scores ! j" using assms(2) by simp
    then have "\<forall>j < length scores. scores ! j = 0" using z(3) by force
    then show ?thesis using z mw assms(1) by auto
  qed
qed

lemma PERSONAS_at: "w < 6 \<Longrightarrow> at PERSONAS (int w) = Some (PERSONAS ! w)"
  by (simp add: at_def PERSONAS_def)

lemma winner_characterisation:
  "\<exists>scores w. scoreAnswers 0 answers zeroScores = Inr scores \<and> length scores = 6 \<and> w < 6 \<and>
      findWinner 0 scores (0, 0) = (scores ! w, w) \<and>
      calculatePersona answers = Inr (Some (PERSONAS ! w)) \<and>
      (\<forall>j < 6. scores ! j \<le> scores ! w) \<and> (\<forall>j < w. scores ! j < scores ! w) \<and>
      ((\<forall>a \<in> set answers. a < 0) \<longrightarrow>
         scores = zeroScores \<and> w = 0 \<and>
         calculatePersona answers = Inr (Some ''morning-minimalist''))"
proof -
  have len0: "length zeroScores = 6" by (simp add: zeroScores_def)
  from scoreAnswers_ok [OF len0, of 0 answers] obtain scores where
    sc: "scoreAnswers 0 answers zeroScores = Inr scores" "length scores = 6"
        "\<forall>j < 6. zeroScores ! j \<le> scores ! j"
    by blast
  have nonneg: "\<forall>x \<in> set scores. 0 \<le> x"
  proof
    fix x assume "x \<in> set scores"
    then obtain j where j: "j < 6" "scores ! j = x" using sc(2) by (auto simp: in_set_conv_nth)
    then have "zeroScores ! j = 0"
      by (auto simp: zeroScores_def nth_Cons')
    then show "0 \<le> x" using sc(3) j by force
  qed
  have ne: "scores \<noteq> []" using sc(2) by auto
  from findWinner_first_max [OF ne nonneg] obtain w where
    w: "w < length scores" "findWinner 0 scores (0, 0) = (scores ! w, w)"
       "\<forall>j < length scores. scores ! j \<le> scores ! w" "\<forall>j < w. scores ! j < scores ! w"
    by blast
  have w6: "w < 6" using w(1) sc(2) by simp
  have res: "calculatePersona answers = Inr (Some (PERSONAS ! w))"
    using sc(1) w(2) PERSONAS_at [OF w6] by (simp add: calculatePersona_def)
  have un: "(\<forall>a \<in> set answers. a < 0) \<longrightarrow>
         scores = zeroScores \<and> w = 0 \<and>
         calculatePersona answers = Inr (Some ''morning-minimalist'')"
  proof
    assume neg: "\<forall>a \<in> set answers. a < 0"
    have "scoreAnswers 0 answers zeroScores = Inr zeroScores"
      using neg by (rule scoreAnswers_unanswered)
    then have eq: "scores = zeroScores" using sc(1) by simp
    have "findWinner 0 zeroScores (0, 0) = (0, 0)" by (simp add: zeroScores_def)
    then have "w = 0" using w(2) eq by simp
    then show "scores = zeroScores \<and> w = 0 \<and>
         calculatePersona answers = Inr (Some ''morning-minimalist'')"
      using eq res by (simp add: PERSONAS_def)
  qed
  have w3: "\<forall>j < 6. scores ! j \<le> scores ! w" using w(3) sc(2) by simp
  show ?thesis
  proof (rule exI [of _ scores], rule exI [of _ w], intro conjI)
    show "scoreAnswers 0 answers zeroScores = Inr scores" by (rule sc(1))
    show "length scores = 6" by (rule sc(2))
    show "w < 6" by (rule w6)
    show "findWinner 0 scores (0, 0) = (scores ! w, w)" by (rule w(2))
    show "calculatePersona answers = Inr (Some (PERSONAS ! w))" by (rule res)
    show "\<forall>j < 6. scores ! j \<le> scores ! w" by (rule w3)
    show "\<forall>j < w. scores ! j < scores ! w" by (rule w(4))
    show "(\<forall>a \<in> set answers. a < 0) \<longrightarrow>
         scores = zeroScores \<and> w = 0 \<and>
         calculatePersona answers = Inr (Some ''morning-minimalist'')" by (rule un)
  qed
qed

lemma calculatePersona_in_taxonomy:
  "\<exists>t \<in> set PERSONAS. calculatePersona answers = Inr (Some t)"
proof -
  from winner_characterisation [of answers] obtain w where
    "w < 6" "calculatePersona answers = Inr (Some (PERSONAS ! w))" by blast
  moreover have "length PERSONAS = 6" by (simp add: PERSONAS_def)
  ultimately show ?thesis by (metis nth_mem)
qed

lemma calculatePersona_3333:
  "scoreAnswers 0 [3, 3, 3, 3] zeroScores = Inr [0, 0, 3, 0, 4, 4]"
  "calculatePersona [3, 3, 3, 3] = Inr (Some ''non-barista'')"
  by (simp_all add: calculatePersona_def scoreAnswer_def at_def SCORING_def PERSONAS_def
        zeroScores_def)

text \<open>
  Claim C4. For every answer vector the winner is found by scanning the six scores in
  enumeration order from the state (maximum 0, winner 0), replacing the winner only on a
  strictly greater score. So the persona returned is the lowest-indexed one among those
  with the maximal score, and a vector that is empty or has only unanswered (negative)
  entries has all scores zero and returns persona 0, morning-minimalist.
\<close>

theorem calculatePersona_tie_break:
  "\<exists>scores w. scoreAnswers 0 answers zeroScores = Inr scores \<and> length scores = 6 \<and> w < 6 \<and>
      findWinner 0 scores (0, 0) = (scores ! w, w) \<and>
      calculatePersona answers = Inr (Some (PERSONAS ! w)) \<and>
      (\<forall>j < 6. scores ! j \<le> scores ! w) \<and> (\<forall>j < w. scores ! j < scores ! w) \<and>
      ((\<forall>a \<in> set answers. a < 0) \<longrightarrow>
         scores = zeroScores \<and> w = 0 \<and>
         calculatePersona answers = Inr (Some ''morning-minimalist''))"
  by (rule winner_characterisation)

theorem calculatePersona_tie_break_witness:
  "calculatePersona [-1, -1, -1, -1] = Inr (Some ''morning-minimalist'') \<and>
   calculatePersona [] = Inr (Some ''morning-minimalist'')"
  using calculatePersona_tie_break [of "[-1, -1, -1, -1]"] calculatePersona_tie_break [of "[]"]
  by (simp add: PERSONAS_def)

text \<open>
  Claim C5, as the code has it. The answers \<open>[3, 3, 3, 3]\<close> give the totals
  \<open>[0, 0, 3, 0, 4, 4]\<close>: non-barista has 4 (2 + 2 + 0 + 0), office-manager has 4
  as well (0 + 1 + 3 + 0), craft-barista 3, the others 0. non-barista is returned
  because it comes first among the two tied at the maximum.
\<close>

theorem calculatePersona_all_last_options:
  "scoreAnswers 0 [3, 3, 3, 3] zeroScores = Inr [0, 0, 3, 0, 4, 4] \<and>
   findWinner 0 [0, 0, 3, 0, 4, 4] (0, 0) = (4, 4) \<and>
   calculatePersona [3, 3, 3, 3] = Inr (Some ''non-barista'')"
  using calculatePersona_3333 by simp

text \<open>
  Claim C5 as stated fails: the non-barista total for \<open>[3, 3, 3, 3]\<close> is not
  strictly higher than every other total, office-manager reaches the same 4.
\<close>

theorem non_barista_not_strictly_highest:
  "scoreAnswers 0 [3, 3, 3, 3] zeroScores = Inr [0, 0, 3, 0, 4, 4] \<and>
   \<not> strictlyHighest 4 [0, 0, 3, 0, 4, 4]"
proof -
  have "\<not> strictlyHighest 4 [0, 0, 3, 0, 4, 4]"
    unfolding strictlyHighest_def by (auto intro!: exI [of _ 5])
  then show ?thesis using calculatePersona_3333(1) by simp
qed

text \<open>
  Claim C6. \<open>calculatePersona\<close> never throws and returns one of the six persona tags
  for every list of integers. An option index beyond the authored options counts as the
  last option (index 3), negative entries are skipped, and entries after the fourth are
  ignored: the result is that of the first four answers, each capped at 3.
\<close>

theorem calculatePersona_total:
  "(\<exists>t \<in> set PERSONAS. calculatePersona answers = Inr (Some t)) \<and>
   calculatePersona answers = calculatePersona (map (\<lambda>a. min a 3) (take 4 answers))"
proof
  show "\<exists>t \<in> set PERSONAS. calculatePersona answers = Inr (Some t)"
    by (rule calculatePersona_in_taxonomy)
next
  show "calculatePersona answers = calculatePersona (map (\<lambda>a. min a 3) (take 4 answers))"
    using scoreAnswers_clamp [of 0 answers zeroScores] by (simp add: calculatePersona_def)
qed

theorem calculatePersona_total_witness:
  "calculatePersona [99, -5, 2, 0, 7] = Inr (Some ''traveller'') \<and>
   calculatePersona [99, -5, 2, 0, 7] = calculatePersona [3, -5, 2, 0]"
proof -
  have "calculatePersona [3, -5, 2, 0] = Inr (Some ''traveller'')"
    by (simp add: calculatePersona_def scoreAnswer_def at_def SCORING_def PERSONAS_def
          zeroScores_def)
  then show ?thesis using calculatePersona_total [of "[99, -5, 2, 0, 7]"] by simp
qed

section \<open>The result page\<close>

lemma getResultPage_own_or_default:
  assumes "propertyKey t \<notin> set OBJECT_PROTOTYPE"
  shows "\<exists>u \<in> set RESULT_URLS. getResultPage t = Inr u"
    and "propertyKey t \<notin> set PERSONAS \<Longrightarrow>
           getResultPage t = Inr ''/experiences/core/morning-minimalist''"
  using assms
  by (auto simp: getResultPage_def getProp_def slugMap_def orElse_def RESULT_URLS_def
        PERSONAS_def)

lemma getResultPage_collapse:
  "getResultPage (TStr ''non-barista'') = Inr ''/experiences/core/the-non-barista''"
  "getResultPage (TStr ''office-manager'') = Inr ''/experiences/core/the-non-barista''"
  "getResultPage TNull = Inr ''/experiences/core/morning-minimalist''"
  "getResultPage TUndefined = Inr ''/experiences/core/morning-minimalist''"
  by (simp_all add: getResultPage_def getProp_def slugMap_def OBJECT_PROTOTYPE_def orElse_def)

text \<open>
  Claim C9 at the tag \<open>constructor\<close>. \<open>slugMap[personaTag]\<close> finds the member
  inherited from \<open>Object.prototype\<close>, which is truthy, so the fallback slug is not
  taken and the URL is built from the text of a built-in function. The same happens for
  each name in \<open>OBJECT_PROTOTYPE\<close>; for every other tag the mapping is as claimed
  (\<open>getResultPage_own_or_default\<close>, \<open>getResultPage_collapse\<close>).
\<close>

theorem getResultPage_inherited_member:
  "getResultPage (TStr ''constructor'') =
     Inr ''/experiences/core/function Object() { [native code] }'' \<and>
   getResultPage (TStr ''constructor'') \<noteq> Inr ''/experiences/core/morning-minimalist''"
  by (simp add: getResultPage_def getProp_def slugMap_def OBJECT_PROTOTYPE_def orElse_def
        nativeText_def)

section \<open>Cookies written on quiz completion\<close>

lemma encode_persona: "t \<in> set PERSONAS \<Longrightarrow> encodeURIComponent t = t"
  by (auto simp: PERSONAS_def encodeURIComponent_def percentEncode_def unreserved_def)

lemma result_page_persona:
  "t \<in> set PERSONAS \<Longrightarrow>
     \<exists>url \<in> set RESULT_URLS. getProp RESULT_PAGES t = JStr url \<and> getResultPage (TStr t) = Inr url"
  by (auto simp: PERSONAS_def RESULT_URLS_def getProp_def RESULT_PAGES_def getResultPage_def
        slugMap_def orElse_def)

text \<open>
  What the quiz-complete branch of the quiz block writes, for every answer list: the
  cookie \<open>arco_persona\<close> expiring 90 days after now and the cookie
  \<open>arco-brew-style\<close> expiring 30 days after now, both with path \<open>/\<close> and
  \<open>SameSite=Lax\<close>, and both holding the tag returned by \<open>calculatePersona\<close>. The
  many-to-one map onto five values is applied to the redirect only.
\<close>

lemma quizComplete_two_cookies:
  "\<exists>t \<in> set PERSONAS. \<exists>url \<in> set RESULT_URLS.
     calculatePersona answers = Inr (Some t) \<and> getResultPage (TStr t) = Inr url \<and>
     quizComplete now answers =
       Inr \<lparr> cookies =
               [\<lparr> cookieName = ''arco_persona'', cookieValue = t,
                   cookieExpires = now + 90 * 86400000, cookiePath = ''/'',
                   cookieSameSite = ''Lax'' \<rparr>,
                \<lparr> cookieName = ''arco-brew-style'', cookieValue = t,
                   cookieExpires = now + 30 * 86400000, cookiePath = ''/'',
                   cookieSameSite = ''Lax'' \<rparr>],
             redirect = url \<rparr>"
proof -
  from calculatePersona_in_taxonomy [of answers] obtain t where
    t: "t \<in> set PERSONAS" "calculatePersona answers = Inr (Some t)" by blast
  from result_page_persona [OF t(1)] obtain url where
    url: "url \<in> set RESULT_URLS" "getProp RESULT_PAGES t = JStr url"
         "getResultPage (TStr t) = Inr url" by blast
  have ne: "url \<noteq> []" using url(1) by (auto simp: RESULT_URLS_def)
  have "quizComplete now answers =
       Inr \<lparr> cookies =
               [\<lparr> cookieName = ''arco_persona'', cookieValue = t,
                   cookieExpires = now + 90 * 86400000, cookiePath = ''/'',
                   cookieSameSite = ''Lax'' \<rparr>,
                \<lparr> cookieName = ''arco-brew-style'', cookieValue = t,
                   cookieExpires = now + 30 * 86400000, cookiePath = ''/'',
                   cookieSameSite = ''Lax'' \<rparr>],
             redirect = url \<rparr>"
    using t(2) url(2) ne encode_persona [OF t(1)]
    by (simp add: quizComplete_def setCookie_def orElse_def)
  then show ?thesis using t url(1,3) by blast
qed

text \<open>
  The two taxonomies share one value only, and the slug map of the code sends every
  canonical tag to one of the five legacy slugs.
\<close>

lemma taxonomies_overlap:
  "set PERSONAS \<inter> set EXPERIENCE_TAGS = {''morning-minimalist''}"
  by (auto simp: PERSONAS_def EXPERIENCE_TAGS_def)

lemma slugMap_legacy_slug:
  "t \<in> set PERSONAS \<Longrightarrow> \<exists>slug \<in> set EXPERIENCE_TAGS. getProp slugMap t = JStr slug"
  by (auto simp: PERSONAS_def EXPERIENCE_TAGS_def getProp_def slugMap_def)

text \<open>
  Claim C2 at the answers \<open>[1, 1, 0, 2]\<close>. The claim says that on quiz completion
  the canonical record \<open>arco_persona\<close> (90 days) holds the canonical tag and the
  legacy record \<open>arco-brew-style\<close> (30 days) holds one of the five legacy slugs,
  derived from the tag by the fixed many-to-one map. The code writes both cookies with
  the stated names and expiries, but passes the canonical tag to both: the legacy cookie
  receives \<open>upgrader\<close>, which is not one of the five slugs of \<open>EXPERIENCE_TAGS\<close>
  that the older brew-style quiz stores in that cookie, while the slug map of the code
  has the legacy slug \<open>the-upgrade-path\<close> for it.
\<close>

theorem legacy_cookie_holds_canonical_tag:
  "quizComplete 0 [1, 1, 0, 2] =
     Inr \<lparr> cookies =
             [\<lparr> cookieName = ''arco_persona'', cookieValue = ''upgrader'',
                 cookieExpires = 7776000000, cookiePath = ''/'', cookieSameSite = ''Lax'' \<rparr>,
              \<lparr> cookieName = ''arco-brew-style'', cookieValue = ''upgrader'',
                 cookieExpires = 2592000000, cookiePath = ''/'', cookieSameSite = ''Lax'' \<rparr>],
           redirect = ''/experiences/core/the-upgrade-path'' \<rparr> \<and>
   ''upgrader'' \<notin> set EXPERIENCE_TAGS \<and>
   getProp slugMap ''upgrader'' = JStr ''the-upgrade-path'' \<and>
   ''the-upgrade-path'' \<in> set EXPERIENCE_TAGS"
  by (simp add: quizComplete_def calculatePersona_def scoreAnswer_def at_def SCORING_def
        PERSONAS_def zeroScores_def setCookie_def encodeURIComponent_def percentEncode_def
        unreserved_def getProp_def RESULT_PAGES_def orElse_def EXPERIENCE_TAGS_def
        slugMap_def)

section \<open>The list-returning tables\<close>

lemma sliceEnd_cases:
  "0 \<le> limit \<Longrightarrow> sliceEnd n limit = min (nat limit) n"
  "limit < 0 \<Longrightarrow> sliceEnd n limit = n - nat (- limit)"
  by (auto simp: sliceEnd_def)

lemma sliceEnd_if:
  "sliceEnd n limit = (if 0 \<le> limit then min (nat limit) n else n - nat (- limit))"
  by (simp add: sliceEnd_cases)

lemma PRODUCT_RECS_list:
  "k \<notin> set OBJECT_PROTOTYPE \<Longrightarrow>
     \<exists>recs. orElse (getProp PRODUCT_RECS k) (getProp PRODUCT_RECS ''default'') = JArr recs \<and>
            length recs = 6"
  by (auto simp: getProp_def orElse_def PRODUCT_RECS_def)

lemma BLOG_FEEDS_list:
  "k \<notin> set OBJECT_PROTOTYPE \<Longrightarrow>
     \<exists>feed. orElse (getProp BLOG_FEEDS k) (getProp BLOG_FEEDS ''default'') = JArr feed \<and>
            length feed = 3"
  by (auto simp: getProp_def orElse_def BLOG_FEEDS_def)

lemma inherited_truthy:
  "k \<in> set OBJECT_PROTOTYPE \<Longrightarrow> map_of tab k = None \<Longrightarrow>
     orElse (getProp tab k) d = JBuiltin k"
  by (simp add: getProp_def orElse_def)

text \<open>
  Claim C3, as the code has it. For every tag whose lookup resolves to a list (every tag
  that is not the name of a member inherited from \<open>Object.prototype\<close>; an absent or
  unknown tag resolves to the default list) \<open>getProductRecommendations\<close> and
  \<open>getBlogFeed\<close> never throw. For a limit \<open>\<ge> 0\<close> they return the first
  \<open>min(limit, length)\<close> elements: the whole list when the limit reaches the length,
  the empty list when it is 0. For a negative limit \<open>slice\<close> counts from the end: the
  result is the list without its last \<open>-limit\<close> elements, which is empty only when
  \<open>limit \<le> -length\<close>.
\<close>

theorem list_tables_limit:
  assumes "propertyKey t \<notin> set OBJECT_PROTOTYPE"
  shows "\<exists>recs feed.
     orElse (getProp PRODUCT_RECS (propertyKey t)) (getProp PRODUCT_RECS ''default'') = JArr recs \<and>
     orElse (getProp BLOG_FEEDS (propertyKey t)) (getProp BLOG_FEEDS ''default'') = JArr feed \<and>
     getProductRecommendations t (Some limit) =
       Inr (JArr (take (if 0 \<le> limit then min (nat limit) (length recs)
                        else length recs - nat (- limit)) recs)) \<and>
     getBlogFeed t (Some limit) =
       Inr (JArr (take (if 0 \<le> limit then min (nat limit) (length feed)
                        else length feed - nat (- limit)) feed)) \<and>
     (int (length recs) \<le> limit \<longrightarrow> getProductRecommendations t (Some limit) = Inr (JArr recs)) \<and>
     (int (length feed) \<le> limit \<longrightarrow> getBlogFeed t (Some limit) = Inr (JArr feed)) \<and>
     (limit = 0 \<or> limit \<le> - int (length recs) \<longrightarrow>
        getProductRecommendations t (Some limit) = Inr (JArr [])) \<and>
     (limit = 0 \<or> limit \<le> - int (length feed) \<longrightarrow> getBlogFeed t (Some limit) = Inr (JArr []))"
proof -
  from PRODUCT_RECS_list [OF assms] obtain recs where
    recs: "orElse (getProp PRODUCT_RECS (propertyKey t)) (getProp PRODUCT_RECS ''default'') = JArr recs"
    by blast
  from BLOG_FEEDS_list [OF assms] obtain feed where
    feed: "orElse (getProp BLOG_FEEDS (propertyKey t)) (getProp BLOG_FEEDS ''default'') = JArr feed"
    by blast
  have p: "getProductRecommendations t (Some limit) = Inr (JArr (take (sliceEnd (length recs) limit) recs))"
    using recs by (simp add: getProductRecommendations_def)
  have b: "getBlogFeed t (Some limit) = Inr (JArr (take (sliceEnd (length feed) limit) feed))"
    using feed by (simp add: getBlogFeed_def)
  show ?thesis
    by (rule exI [of _ recs], rule exI [of _ feed])
       (auto simp: recs feed p b sliceEnd_if)
qed

theorem list_tables_limit_witness:
  "getProductRecommendations (TStr ''upgrader'') (Some 9) =
     Inr (JArr [JStr ''arco-doppio'', JStr ''arco-studio'', JStr ''arco-preciso'',
                JStr ''arco-primo'', JStr ''arco-macinino'', JStr ''arco-zero'']) \<and>
   getBlogFeed (TStr ''nobody'') (Some 0) = Inr (JArr []) \<and>
   getBlogFeed TNull (Some 2) =
     Inr (JArr [JStr ''why-your-grinder-matters-more-than-your-machine'',
                JStr ''a-visit-to-our-workshop''])"
proof -
  have k: "propertyKey (TStr ''upgrader'') \<notin> set OBJECT_PROTOTYPE"
          "propertyKey (TStr ''nobody'') \<notin> set OBJECT_PROTOTYPE"
          "propertyKey TNull \<notin> set OBJECT_PROTOTYPE"
    by (simp_all add: OBJECT_PROTOTYPE_def)
  have r: "orElse (getProp PRODUCT_RECS ''upgrader'') (getProp PRODUCT_RECS ''default'') =
      JArr [JStr ''arco-doppio'', JStr ''arco-studio'', JStr ''arco-preciso'',
                JStr ''arco-primo'', JStr ''arco-macinino'', JStr ''arco-zero'']"
    by (simp add: getProp_def orElse_def PRODUCT_RECS_def)
  have f: "orElse (getProp BLOG_FEEDS ''null'') (getProp BLOG_FEEDS ''default'') =
      JArr [JStr ''why-your-grinder-matters-more-than-your-machine'',
                JStr ''a-visit-to-our-workshop'', JStr ''the-architect-who-built-a-coffee-corner'']"
    by (simp add: getProp_def orElse_def BLOG_FEEDS_def OBJECT_PROTOTYPE_def)
  show ?thesis
    using list_tables_limit [OF k(1), of 9] list_tables_limit [OF k(2), of 0]
      list_tables_limit [OF k(3), of 2] r f
    by auto
qed

text \<open>
  Claim C3 as stated fails for a negative limit: with limit \<open>-1\<close> the upgrader's
  six recommendations come back without the last one, and the feed without its last.
\<close>

theorem negative_limit_not_empty:
  "getProductRecommendations (TStr ''upgrader'') (Some (- 1)) =
     Inr (JArr [JStr ''arco-doppio'', JStr ''arco-studio'', JStr ''arco-preciso'',
                JStr ''arco-primo'', JStr ''arco-macinino'']) \<and>
   getBlogFeed (TStr ''upgrader'') (Some (- 1)) =
     Inr (JArr [JStr ''why-your-grinder-matters-more-than-your-machine'',
                JStr ''pre-infusion-what-it-is-and-why-arco-uses-it''])"
  by (simp add: getProductRecommendations_def getBlogFeed_def getProp_def orElse_def
        PRODUCT_RECS_def BLOG_FEEDS_def sliceEnd_def)

section \<open>Page composition\<close>

lemma map_of_assignProp:
  "k \<noteq> ''__proto__'' \<Longrightarrow>
     map_of (assignProp kv target) k = (if fst kv = k then Some (snd kv) else map_of target k)"
  by (auto simp: assignProp_def update_conv')

lemma map_of_fold_assignProp:
  "distinct (map fst source) \<Longrightarrow> k \<noteq> ''__proto__'' \<Longrightarrow>
     map_of (fold assignProp source target) k =
       (case map_of source k of Some v \<Rightarrow> Some v | None \<Rightarrow> map_of target k)"
proof (induction source arbitrary: target)
  case Nil
  then show ?case by simp
next
  case (Cons kv source)
  have d: "distinct (map fst source)" "fst kv \<notin> fst ` set source" using Cons.prems(1) by auto
  have IH: "map_of (fold assignProp source (assignProp kv target)) k =
       (case map_of source k of Some v \<Rightarrow> Some v | None \<Rightarrow> map_of (assignProp kv target) k)"
    using Cons.IH [OF d(1) Cons.prems(2)] .
  show ?case
  proof (cases "fst kv = k")
    case True
    then have "map_of source k = None" using d(2) by (simp add: map_of_eq_None_iff)
    moreover have "map_of (assignProp kv target) k = Some (snd kv)"
      using True Cons.prems(2) by (simp add: map_of_assignProp)
    ultimately show ?thesis using IH True by simp
  next
    case False
    then have "map_of (assignProp kv target) k = map_of target k"
      using Cons.prems(2) by (simp add: map_of_assignProp)
    then show ?thesis using IH False by (simp split: option.splits)
  qed
qed

text \<open>
  Claim C1, as the code has it. The page type of the merge is \<open>pdp\<close> and the field is
  \<open>persona_overrides\<close>. For a non-empty tag \<open>s\<close> whose entry in
  \<open>persona_overrides\<close> is an object \<open>ov\<close>, \<open>composePage\<close> returns the copy of
  \<open>baseContent\<close> with \<open>ov\<close> assigned over it and then stamped: for every key other
  than the two stamped fields (and other than \<open>__proto__\<close>) the result holds the
  override's value where the override has the key, whole and not merged, and the base
  value otherwise; \<open>_persona\<close> is the tag and \<open>_assembled_at\<close> the timestamp
  whatever the override says.
\<close>

theorem composePage_pdp_override:
  assumes "s \<noteq> []"
    and "map_of baseContent ''persona_overrides'' = Some (JObj po)"
    and "map_of po s = Some (JObj ov)"
    and "distinct (map fst ov)"
    and "k \<notin> {''_persona'', ''_assembled_at'', ''__proto__''}"
  shows "\<exists>r. composePage now cookie ''pdp'' (TStr s) baseContent = Inr r \<and>
           map_of r k = (case map_of ov k of Some v \<Rightarrow> Some v | None \<Rightarrow> map_of baseContent k) \<and>
           map_of r ''_persona'' = Some (JStr s) \<and>
           map_of r ''_assembled_at'' = Some (JStr now)"
proof -
  have ov: "overrideFor baseContent (TStr s) = Inr (JObj ov)"
    using assms(2,3) by (simp add: overrideFor_def getProp_def)
  have pdp: "assemblePdp (TStr s) baseContent baseContent = Inr (fold assignProp ov baseContent)"
    using assms(1) ov by (simp add: assemblePdp_def)
  have res: "composePage now cookie ''pdp'' (TStr s) baseContent =
      Inr (AList.update ''_assembled_at'' (JStr now)
            (AList.update ''_persona'' (JStr s) (fold assignProp ov baseContent)))"
    using assms(1) pdp by (simp add: composePage_def resolvePersona_def)
  have k: "k \<noteq> ''_persona''" "k \<noteq> ''_assembled_at''" "k \<noteq> ''__proto__''"
    using assms(5) by auto
  have "map_of (AList.update ''_assembled_at'' (JStr now)
            (AList.update ''_persona'' (JStr s) (fold assignProp ov baseContent))) k =
        (case map_of ov k of Some v \<Rightarrow> Some v | None \<Rightarrow> map_of baseContent k)"
    using k map_of_fold_assignProp [OF assms(4) k(3), of baseContent]
    by (simp add: update_conv')
  then show ?thesis using res by (simp add: update_conv')
qed

theorem composePage_pdp_override_witness:
  "field (composePage ''2026-01-01T00:00:00.000Z'' (Inr None) ''pdp'' (TStr ''upgrader'')
       [(''persona_overrides'', JObj [(''upgrader'', JObj [(''price'', JNum 10)])]),
        (''price'', JNum 20), (''name'', JStr ''Arco Doppio'')]) ''price'' = Some (JNum 10) \<and>
   field (composePage ''2026-01-01T00:00:00.000Z'' (Inr None) ''pdp'' (TStr ''upgrader'')
       [(''persona_overrides'', JObj [(''upgrader'', JObj [(''price'', JNum 10)])]),
        (''price'', JNum 20), (''name'', JStr ''Arco Doppio'')]) ''name'' = Some (JStr ''Arco Doppio'')"
proof -
  let ?base = "[(''persona_overrides'', JObj [(''upgrader'', JObj [(''price'', JNum 10)])]),
        (''price'', JNum 20), (''name'', JStr ''Arco Doppio'')]"
  have a: "''upgrader'' \<noteq> []"
      "map_of ?base ''persona_overrides'' = Some (JObj [(''upgrader'', JObj [(''price'', JNum 10)])])"
      "map_of [(''upgrader'', JObj [(''price'', JNum 10)])] ''upgrader'' = Some (JObj [(''price'', JNum 10)])"
      "distinct (map fst [(''price'', JNum 10)])"
    by simp_all
  have k1: "''price'' \<notin> {''_persona'', ''_assembled_at'', ''__proto__''}"
   and k2: "''name'' \<notin> {''_persona'', ''_assembled_at'', ''__proto__''}" by simp_all
  show ?thesis
    using composePage_pdp_override [OF a k1, of "''2026-01-01T00:00:00.000Z''" "Inr None"]
          composePage_pdp_override [OF a k2, of "''2026-01-01T00:00:00.000Z''" "Inr None"]
    by (auto simp: field_def)
qed

text \<open>
  Claim C1 as stated fails. Its own example, with page type \<open>product-detail\<close> and
  field \<open>personaOverrides\<close>, is not merged at all: \<open>price\<close> stays 20. And with the
  names of the code, an override key \<open>_persona\<close> does not replace the stamped value,
  nor is a base key \<open>_assembled_at\<close> retained.
\<close>

theorem product_detail_example_not_merged:
  "field (composePage ''2026-01-01T00:00:00.000Z'' (Inr None) ''product-detail'' (TStr ''upgrader'')
       [(''personaOverrides'', JObj [(''upgrader'', JObj [(''price'', JNum 10)])]),
        (''price'', JNum 20)]) ''price'' = Some (JNum 20) \<and>
   field (composePage ''2026-01-01T00:00:00.000Z'' (Inr None) ''pdp'' (TStr ''upgrader'')
       [(''persona_overrides'', JObj [(''upgrader'', JObj [(''_persona'', JStr ''x'')])]),
        (''_assembled_at'', JStr ''base'')]) ''_persona'' = Some (JStr ''upgrader'') \<and>
   field (composePage ''2026-01-01T00:00:00.000Z'' (Inr None) ''pdp'' (TStr ''upgrader'')
       [(''persona_overrides'', JObj [(''upgrader'', JObj [(''_persona'', JStr ''x'')])]),
        (''_assembled_at'', JStr ''base'')]) ''_assembled_at'' = Some (JStr ''2026-01-01T00:00:00.000Z'')"
  by (simp add: field_def composePage_def resolvePersona_def assemblePdp_def overrideFor_def
        getProp_def assignProp_def)

text \<open>
  Claim C8. \<open>composePage\<close> is deterministic up to its timestamp: with the same page
  type, tag, base content and stored persona, a second call made at another time gives
  the first call's outcome with only the field \<open>_assembled_at\<close> set to the new time
  (and throws exactly when the first did).
\<close>

theorem composePage_deterministic:
  "composePage now2 cookie pageType tagArg baseContent =
     map_sum id (AList.update ''_assembled_at'' (JStr now2))
       (composePage now1 cookie pageType tagArg baseContent)"
  by (simp add: composePage_def split: sum.splits)

theorem composePage_deterministic_witness:
  "composePage ''2026-02-02T00:00:00.000Z'' (Inr None) ''homepage'' TNull [] =
     map_sum id (AList.update ''_assembled_at'' (JStr ''2026-02-02T00:00:00.000Z''))
       (composePage ''2026-01-01T00:00:00.000Z'' (Inr None) ''homepage'' TNull []) \<and>
   composePage ''2026-02-02T00:00:00.000Z'' (Inr None) ''guide'' TNull [(''title'', JStr ''Tamping'')] =
     Inr [(''title'', JStr ''Tamping''), (''_persona'', JNull),
          (''_assembled_at'', JStr ''2026-02-02T00:00:00.000Z'')]"
proof -
  have "composePage ''2026-01-01T00:00:00.000Z'' (Inr None) ''guide'' TNull [(''title'', JStr ''Tamping'')] =
     Inr [(''title'', JStr ''Tamping''), (''_persona'', JNull),
          (''_assembled_at'', JStr ''2026-01-01T00:00:00.000Z'')]"
    by (simp add: composePage_def resolvePersona_def)
  then show ?thesis
    using composePage_deterministic [of "''2026-02-02T00:00:00.000Z''" "Inr None" "''homepage''"
            TNull "[]" "''2026-01-01T00:00:00.000Z''"]
          composePage_deterministic [of "''2026-02-02T00:00:00.000Z''" "Inr None" "''guide''"
            TNull "[(''title'', JStr ''Tamping'')]" "''2026-01-01T00:00:00.000Z''"]
    by simp
qed

text \<open>
  Claim C10. A falsy tag argument, \<open>null\<close>, \<open>undefined\<close> or the empty string, is
  never used as the persona: each falls back to the stored persona, so the three calls
  have the same outcome for every page type, base content and store state.
\<close>

theorem composePage_falsy_tag:
  "composePage now cookie pageType (TStr '''') baseContent =
     composePage now cookie pageType TNull baseContent \<and>
   composePage now cookie pageType TUndefined baseContent =
     composePage now cookie pageType TNull baseContent"
  by (simp add: composePage_def resolvePersona_def)

theorem composePage_falsy_tag_witness:
  "composePage ''2026-01-01T00:00:00.000Z'' (Inr (Some ''upgrader'')) ''article'' (TStr '''') [] =
     composePage ''2026-01-01T00:00:00.000Z'' (Inr (Some ''upgrader'')) ''article'' TNull [] \<and>
   composePage ''2026-01-01T00:00:00.000Z'' (Inr (Some ''upgrader'')) ''article'' TNull [] =
     Inr [(''_persona'', JStr ''upgrader''), (''_assembled_at'', JStr ''2026-01-01T00:00:00.000Z'')]"
proof -
  have "composePage ''2026-01-01T00:00:00.000Z'' (Inr (Some ''upgrader'')) ''article'' TNull [] =
     Inr [(''_persona'', JStr ''upgrader''), (''_assembled_at'', JStr ''2026-01-01T00:00:00.000Z'')]"
    by (simp add: composePage_def resolvePersona_def)
  then show ?thesis
    using composePage_falsy_tag [of "''2026-01-01T00:00:00.000Z''" "Inr (Some ''upgrader'')" "''article''" "[]"]
    by simp
qed

lemma variant_defaults:
  assumes "propertyKey p \<notin> set OBJECT_PROTOTYPE" and "propertyKey p \<notin> set PERSONAS"
  shows "getHeroVariant p = getProp HERO_VARIANTS ''default''"
    and "getExperienceCTA p = getProp EXPERIENCE_CTAS ''default''"
    and "getNavigationOverride p =
           JObj [(''promote'', JArr []), (''demote'', JArr []), (''cta'', JNull)]"
    and "orElse (getProp PRODUCT_RECS (propertyKey p)) (getProp PRODUCT_RECS ''default'') =
           getProp PRODUCT_RECS ''default''"
    and "orElse (getProp BLOG_FEEDS (propertyKey p)) (getProp BLOG_FEEDS ''default'') =
           getProp BLOG_FEEDS ''default''"
proof -
  have k: "propertyKey p \<noteq> ''morning-minimalist''" "propertyKey p \<noteq> ''upgrader''"
    "propertyKey p \<noteq> ''craft-barista''" "propertyKey p \<noteq> ''traveller''"
    "propertyKey p \<noteq> ''non-barista''" "propertyKey p \<noteq> ''office-manager''"
    using assms(2) by (auto simp: PERSONAS_def)
  show "getHeroVariant p = getProp HERO_VARIANTS ''default''"
    using assms(1) k by (simp add: getHeroVariant_def getProp_def orElse_def HERO_VARIANTS_def)
  show "getExperienceCTA p = getProp EXPERIENCE_CTAS ''default''"
    using assms(1) k by (simp add: getExperienceCTA_def getProp_def orElse_def EXPERIENCE_CTAS_def)
  show "getNavigationOverride p =
           JObj [(''promote'', JArr []), (''demote'', JArr []), (''cta'', JNull)]"
    using assms(1) k by (simp add: getNavigationOverride_def getProp_def orElse_def overrides_def)
  show "orElse (getProp PRODUCT_RECS (propertyKey p)) (getProp PRODUCT_RECS ''default'') =
           getProp PRODUCT_RECS ''default''"
    using assms(1) k by (simp add: getProp_def orElse_def PRODUCT_RECS_def)
  show "orElse (getProp BLOG_FEEDS (propertyKey p)) (getProp BLOG_FEEDS ''default'') =
           getProp BLOG_FEEDS ''default''"
    using assms(1) k by (simp add: getProp_def orElse_def BLOG_FEEDS_def)
qed

lemma composePage_homepage:
  assumes "resolvePersona tagArg cookie = Inr p"
    and "propertyKey p \<notin> set OBJECT_PROTOTYPE"
  shows "\<exists>r recs feed.
     composePage now cookie ''homepage'' tagArg baseContent = Inr r \<and>
     orElse (getProp PRODUCT_RECS (propertyKey p)) (getProp PRODUCT_RECS ''default'') = JArr recs \<and>
     orElse (getProp BLOG_FEEDS (propertyKey p)) (getProp BLOG_FEEDS ''default'') = JArr feed \<and>
     map_of r ''hero'' = Some (getHeroVariant p) \<and>
     map_of r ''products'' = Some (JArr (take 3 recs)) \<and>
     map_of r ''blog_feed'' = Some (JArr (take 3 feed)) \<and>
     map_of r ''experience_cta'' = Some (getExperienceCTA p) \<and>
     map_of r ''nav_override'' = Some (getNavigationOverride p) \<and>
     map_of r ''_persona'' = Some (tagValue p) \<and>
     map_of r ''_assembled_at'' = Some (JStr now) \<and>
     (\<forall>k. k \<notin> {''hero'', ''products'', ''blog_feed'', ''experience_cta'', ''nav_override'',
                ''_persona'', ''_assembled_at''} \<longrightarrow> map_of r k = map_of baseContent k)"
proof -
  from PRODUCT_RECS_list [OF assms(2)] obtain recs where
    recs: "orElse (getProp PRODUCT_RECS (propertyKey p)) (getProp PRODUCT_RECS ''default'') = JArr recs"
      "length recs = 6" by blast
  from BLOG_FEEDS_list [OF assms(2)] obtain feed where
    feed: "orElse (getProp BLOG_FEEDS (propertyKey p)) (getProp BLOG_FEEDS ''default'') = JArr feed"
      "length feed = 3" by blast
  have p: "getProductRecommendations p (Some 3) = Inr (JArr (take 3 recs))"
    using recs by (simp add: getProductRecommendations_def sliceEnd_def)
  have b: "getBlogFeed p (Some 3) = Inr (JArr (take 3 feed))"
    using feed by (simp add: getBlogFeed_def sliceEnd_def)
  define r where "r =
     AList.update ''_assembled_at'' (JStr now)
       (AList.update ''_persona'' (tagValue p)
         (AList.update ''nav_override'' (getNavigationOverride p)
           (AList.update ''experience_cta'' (getExperienceCTA p)
             (AList.update ''blog_feed'' (JArr (take 3 feed))
               (AList.update ''products'' (JArr (take 3 recs))
                 (AList.update ''hero'' (getHeroVariant p) baseContent))))))"
  have res: "composePage now cookie ''homepage'' tagArg baseContent = Inr r"
    using assms(1) p b by (simp add: composePage_def assembleHomepage_def r_def)
  have m: "map_of r =
     (map_of baseContent)(''hero'' \<mapsto> getHeroVariant p, ''products'' \<mapsto> JArr (take 3 recs),
        ''blog_feed'' \<mapsto> JArr (take 3 feed), ''experience_cta'' \<mapsto> getExperienceCTA p,
        ''nav_override'' \<mapsto> getNavigationOverride p, ''_persona'' \<mapsto> tagValue p,
        ''_assembled_at'' \<mapsto> JStr now)"
    by (simp only: r_def update_conv')
  show ?thesis
    by (rule exI [of _ r], rule exI [of _ recs], rule exI [of _ feed])
       (simp add: res recs(1) feed(1) m)
qed

text \<open>
  Claim C7 at the tag \<open>constructor\<close>, given as the argument or read from the cookie.
  Each table lookup finds the member inherited from \<open>Object.prototype\<close> instead of
  falling back to the default entry; the hero becomes a built-in function, and
  \<open>recs.slice\<close> is not a function, so \<open>composePage\<close> throws \<open>TypeError\<close>. For
  every persona that is not one of the names in \<open>OBJECT_PROTOTYPE\<close> the homepage is
  composed as claimed (\<open>composePage_homepage\<close>, \<open>variant_defaults\<close>).
\<close>

theorem composePage_homepage_inherited_member:
  "composePage ''2026-01-01T00:00:00.000Z'' (Inr None) ''homepage'' (TStr ''constructor'') [] =
     Inl TypeError \<and>
   composePage ''2026-01-01T00:00:00.000Z'' (Inr (Some ''constructor'')) ''homepage'' TNull [] =
     Inl TypeError \<and>
   getHeroVariant (TStr ''constructor'') = JBuiltin ''constructor''"
  by (simp add: composePage_def resolvePersona_def assembleHomepage_def
        getProductRecommendations_def getHeroVariant_def getProp_def orElse_def
        PRODUCT_RECS_def HERO_VARIANTS_def OBJECT_PROTOTYPE_def)

end
